theory Spec2Isabelle
  imports Main "HOL-Library.Word" "HOL-Library.Multiset"
begin

unbundle bit_operations_syntax

section \<open>Data model of the log handler (src/logging/log\_handler.c)\<close>

type_synonym byte = "8 word"

text \<open>The three compile-time defaults of log\_handler.c (0600 octal is 384).\<close>

definition DEFAULT_FILE_SIZE :: nat where
  "DEFAULT_FILE_SIZE = 128 * 1024"

definition DEFAULT_MAX_BACKUP :: nat where
  "DEFAULT_MAX_BACKUP = 3"

definition DEFAULT_MODE :: nat where
  "DEFAULT_MODE = 384"

text \<open>
  Modelled from the spec: the virRotatingFileWriter object (virrotatingfile.c is not among
  the sources). Section 3 of the specification lists its fields: path, max\_size,
  max\_backups, create\_mode; the current inode and offset are read from the file on disk.
\<close>

record virRotatingFileWriter =
  wpath :: string
  wmaxlen :: nat
  wmaxbackup :: nat
  wmode :: nat

text \<open>
  struct \_virLogHandlerLogFile. The writer pointer is NULL (\<open>None\<close>) while an entry is
  under construction; watch and pipefd are C ints. The field \<open>file\<close> of the source is named
  \<open>wfile\<close> here (\<open>file\<close> is reserved).
\<close>

record virLogHandlerLogFile =
  wfile :: "virRotatingFileWriter option"
  watch :: int
  pipefd :: int

text \<open>struct \_virLogHandler: files/nfiles is the list, nfiles its length.\<close>

record virLogHandler =
  privileged :: bool
  files :: "virLogHandlerLogFile list"

section \<open>The world outside the handler\<close>

text \<open>
  Modelled from the spec: what is on disk for one log path, the current file and its retained
  backups (head of the list is suffix .1, the youngest backup).
\<close>

record logfile =
  ino :: nat
  content :: "byte list"

record logset =
  current :: logfile
  backups :: "logfile list"

text \<open>
  The resources the handler acquires and releases:
  \<^item> \<open>fdtab\<close>: the process's open descriptors; the value tells whether the descriptor is
    inherited across exec (close-on-exec clear);
  \<^item> \<open>watches\<close>: the event loop's registrations, watch number to descriptor;
  \<^item> \<open>writers\<close>: the live writer objects, counted by path;
  \<^item> \<open>disk\<close>: the log files; \<open>next_ino\<close> numbers newly created files.
\<close>

record world =
  fdtab :: "int \<rightharpoonup> bool"
  watches :: "int \<rightharpoonup> int"
  writers :: "string multiset"
  disk :: "string \<rightharpoonup> logset"
  next_ino :: nat

text \<open>
  What the environment decides: which allocation fails, what the system calls return.
  Allocation sites are named; inside a loop the outcome may differ per iteration. The field
  \<open>truncates\<close> tells for which value of its fourth argument virRotatingFileWriterNew
  truncates the file: the declaration of that function is not among the sources.
\<close>

datatype alloc_site =
    AllocHandler | AllocFile | AppendElement | AllocData
  | JsonRoot | JsonNewArray | JsonObjectAppend
  | JsonNewObject | JsonArrayAppend | JsonAppendPipefd | JsonAppendPath

datatype errno = EINTR | EAGAIN | EIO

datatype read_result = ReadData "byte list" | ReadErr errno

datatype io = IoAll | IoShort nat | IoErr

record env =
  LOCALSTATEDIR :: string
  virGetUserCacheDirectory :: "string option"
  asprintf_ok :: bool
  alloc_fails :: "nat \<Rightarrow> alloc_site \<Rightarrow> bool"
  pipe_res :: "(int \<times> int) option"
  writer_new_ok :: "string \<Rightarrow> bool"
  truncates :: "bool \<Rightarrow> bool"
  add_handle :: "int \<Rightarrow> nat option"
  reads :: "read_result list"
  append_io :: io
  reader_new_ok :: bool
  consume_ok :: bool

section \<open>Path derivation\<close>

text \<open>
  virLogHandlerGetLogFilePathForDomain. The UUID argument is ATTRIBUTE\_UNUSED. LOCALSTATEDIR
  comes from configmake.h and the cache directory from virGetUserCacheDirectory, both
  outside the sources: they are parameters. NULL (\<open>None\<close>) is returned when virAsprintf or
  virGetUserCacheDirectory fails.
\<close>

definition virLogHandlerGetLogFilePathForDomain ::
  "env \<Rightarrow> virLogHandler \<Rightarrow> string \<Rightarrow> byte list \<Rightarrow> string \<Rightarrow> string option" where
  "virLogHandlerGetLogFilePathForDomain e handler driver domuuid domname =
     (if privileged handler then
        (if asprintf_ok e
         then Some (LOCALSTATEDIR e @ ''/log/libvirt/'' @ driver @ ''/'' @ domname @ ''.log'')
         else None)
      else
        (case virGetUserCacheDirectory e of
           None \<Rightarrow> None
         | Some cachedir \<Rightarrow>
             if asprintf_ok e
             then Some (cachedir @ ''/'' @ driver @ ''/log/'' @ domname @ ''.log'')
             else None))"

section \<open>Descriptors, the event loop and the rotating files\<close>

text \<open>
  Modelled from the spec: VIR\_FORCE\_CLOSE (virfile.h is not among the sources), the forced
  close of section 5. It closes a descriptor that is not negative; closing one that is not
  open changes nothing.
\<close>

definition VIR_FORCE_CLOSE :: "int \<Rightarrow> world \<Rightarrow> world" where
  "VIR_FORCE_CLOSE fd w = (if fd < 0 then w else w\<lparr>fdtab := (fdtab w)(fd := None)\<rparr>)"

text \<open>pipe(2): the two new descriptors are the environment's choice; a descriptor made by
  plain pipe() has close-on-exec clear.\<close>

definition pipe :: "env \<Rightarrow> world \<Rightarrow> ((int \<times> int) \<times> world) option" where
  "pipe e w =
     (case pipe_res e of
        None \<Rightarrow> None
      | Some (r, wr) \<Rightarrow> Some ((r, wr), w\<lparr>fdtab := (fdtab w)(r \<mapsto> True, wr \<mapsto> True)\<rparr>))"

text \<open>
  Modelled from the spec: virSetInherit (virutil.c is not among the sources), the
  descriptor-inheritance toggle \<open>set_inheritable(fd, bool)\<close> of section 6. It is an fcntl
  on the descriptor, which fails on one that is not open.
\<close>

definition virSetInherit :: "int \<Rightarrow> bool \<Rightarrow> world \<Rightarrow> world option" where
  "virSetInherit fd inherit w =
     (case fdtab w fd of
        None \<Rightarrow> None
      | Some _ \<Rightarrow> Some (w\<lparr>fdtab := (fdtab w)(fd \<mapsto> inherit)\<rparr>))"

text \<open>
  Modelled from the spec: the event-loop registration API of section 6,
  \<open>add(fd, READABLE) -> watch_id\<close> and \<open>remove(watch_id)\<close>; a failed registration
  returns -1, the value section 3 gives for an unregistered watch.
\<close>

definition virEventAddHandle :: "env \<Rightarrow> int \<Rightarrow> world \<Rightarrow> int \<times> world" where
  "virEventAddHandle e fd w =
     (case add_handle e fd of
        None \<Rightarrow> (- 1, w)
      | Some n \<Rightarrow> (int n, w\<lparr>watches := (watches w)(int n \<mapsto> fd)\<rparr>))"

definition virEventRemoveHandle :: "int \<Rightarrow> world \<Rightarrow> world" where
  "virEventRemoveHandle wt w = w\<lparr>watches := (watches w)(wt := None)\<rparr>"

text \<open>
  Modelled from the spec: virRotatingFileWriterNew (virrotatingfile.c and its header are not
  among the sources). Section 4.1: \<open>new\<close> opens or creates the path with the given
  permission bits, truncating or not as its fourth argument asks, and fails on permission
  or path failures (the environment's \<open>writer_new_ok\<close>). Which value of the fourth
  argument asks for truncation is not fixed here: sections 4.1 and 4.4 call the argument
  \<open>append\<close> (false truncates), section 4.5 calls the creation that passes false "append
  mode (not truncating)". It is the environment's \<open>truncates\<close>.
\<close>

definition virRotatingFileWriterNew ::
  "env \<Rightarrow> string \<Rightarrow> nat \<Rightarrow> nat \<Rightarrow> bool \<Rightarrow> nat \<Rightarrow> world
     \<Rightarrow> virRotatingFileWriter option \<times> world" where
  "virRotatingFileWriterNew e path maxlen maxbackup flag mode w =
     (if \<not> writer_new_ok e path then (None, w)
      else
        (case disk w path of
           None \<Rightarrow>
             (Some \<lparr>wpath = path, wmaxlen = maxlen, wmaxbackup = maxbackup, wmode = mode\<rparr>,
              w\<lparr>disk := (disk w)(path \<mapsto>
                    \<lparr>current = \<lparr>ino = next_ino w, content = []\<rparr>, backups = []\<rparr>),
                 next_ino := Suc (next_ino w),
                 writers := add_mset path (writers w)\<rparr>)
         | Some ls \<Rightarrow>
             (Some \<lparr>wpath = path, wmaxlen = maxlen, wmaxbackup = maxbackup, wmode = mode\<rparr>,
              w\<lparr>disk := (disk w)(path \<mapsto>
                    (if truncates e flag
                     then ls\<lparr>current := (current ls)\<lparr>content := []\<rparr>\<rparr> else ls)),
                 writers := add_mset path (writers w)\<rparr>)))"

text \<open>
  Modelled from the spec: virRotatingFileWriterFree releases the writer (NULL is accepted, as
  virLogHandlerLogFileFree relies on), and the accessors of section 4.1, \<open>path()\<close>,
  \<open>inode()\<close> and \<open>offset()\<close>, reflect the current file and the write position.
\<close>

definition virRotatingFileWriterFree :: "virRotatingFileWriter option \<Rightarrow> world \<Rightarrow> world" where
  "virRotatingFileWriterFree f w =
     (case f of
        None \<Rightarrow> w
      | Some wr \<Rightarrow> w\<lparr>writers := writers w - {#wpath wr#}\<rparr>)"

definition virRotatingFileWriterGetPath :: "virRotatingFileWriter \<Rightarrow> string" where
  "virRotatingFileWriterGetPath wr = wpath wr"

definition virRotatingFileWriterGetINode :: "virRotatingFileWriter \<Rightarrow> world \<Rightarrow> nat" where
  "virRotatingFileWriterGetINode wr w =
     (case disk w (wpath wr) of None \<Rightarrow> 0 | Some ls \<Rightarrow> ino (current ls))"

definition virRotatingFileWriterGetOffset :: "virRotatingFileWriter \<Rightarrow> world \<Rightarrow> nat" where
  "virRotatingFileWriterGetOffset wr w =
     (case disk w (wpath wr) of None \<Rightarrow> 0 | Some ls \<Rightarrow> length (content (current ls)))"

text \<open>
  Modelled from the spec: virRotatingFileWriterAppend. Section 4.1: if appending would cross
  max\_size, rotation comes first (the current file becomes backup 1, older backups shift,
  those beyond max\_backups are discarded, a fresh current file is created), then the buffer
  is written; the number of bytes written is returned. The environment's \<open>append_io\<close>
  decides between a full write, a short write and an error (-1).
\<close>

definition rotate :: "nat \<Rightarrow> nat \<Rightarrow> logset \<Rightarrow> logset" where
  "rotate maxbackup fresh ls =
     \<lparr>current = \<lparr>ino = fresh, content = []\<rparr>,
      backups = take maxbackup (current ls # backups ls)\<rparr>"

definition written :: "io \<Rightarrow> byte list \<Rightarrow> byte list" where
  "written r buf = (case r of IoAll \<Rightarrow> buf | IoShort k \<Rightarrow> take k buf | IoErr \<Rightarrow> [])"

definition virRotatingFileWriterAppend ::
  "env \<Rightarrow> virRotatingFileWriter \<Rightarrow> byte list \<Rightarrow> world \<Rightarrow> int \<times> world" where
  "virRotatingFileWriterAppend e wr buf w =
     (if append_io e = IoErr then (- 1, w)
      else
        let ls = (case disk w (wpath wr) of
                    None \<Rightarrow> \<lparr>current = \<lparr>ino = next_ino w, content = []\<rparr>, backups = []\<rparr>
                  | Some ls \<Rightarrow> ls);
            full = (length (content (current ls)) + length buf > wmaxlen wr);
            ls1 = (if full then rotate (wmaxbackup wr) (next_ino w) ls else ls);
            out = written (append_io e) buf;
            ls2 = ls1\<lparr>current := (current ls1)\<lparr>content := content (current ls1) @ out\<rparr>\<rparr>
        in (int (length out),
            w\<lparr>disk := (disk w)(wpath wr \<mapsto> ls2),
               next_ino := (if full \<or> disk w (wpath wr) = None
                            then Suc (next_ino w) else next_ino w)\<rparr>))"

section \<open>The restart document\<close>

text \<open>
  Modelled from the spec: the JSON tree of virjson.h (not among the sources) for the
  document of section 6, with the accessors the handler calls: a lookup is NULL (\<open>None\<close>)
  on a value that is not an object, on a missing key and on a value of the wrong type;
  virJSONValueArraySize is -1 on a value that is not an array.
\<close>

datatype virJSONValue =
    JNull
  | JBool bool
  | JNumber int
  | JString string
  | JArray "virJSONValue list"
  | JObject "(string \<times> virJSONValue) list"

definition virJSONValueObjectGet :: "virJSONValue \<Rightarrow> string \<Rightarrow> virJSONValue option" where
  "virJSONValueObjectGet object key =
     (case object of JObject kvs \<Rightarrow> map_of kvs key | _ \<Rightarrow> None)"

definition virJSONValueObjectGetString :: "virJSONValue \<Rightarrow> string \<Rightarrow> string option" where
  "virJSONValueObjectGetString object key =
     (case virJSONValueObjectGet object key of Some (JString s) \<Rightarrow> Some s | _ \<Rightarrow> None)"

definition virJSONValueObjectGetNumberInt :: "virJSONValue \<Rightarrow> string \<Rightarrow> int option" where
  "virJSONValueObjectGetNumberInt object key =
     (case virJSONValueObjectGet object key of Some (JNumber n) \<Rightarrow> Some n | _ \<Rightarrow> None)"

definition virJSONValueArraySize :: "virJSONValue \<Rightarrow> int" where
  "virJSONValueArraySize v = (case v of JArray xs \<Rightarrow> int (length xs) | _ \<Rightarrow> - 1)"

section \<open>Entries: release, close, lookup\<close>

datatype error =
    PathFailed | Busy string | PipeFailed | NoMemory | WriterFailed | WatchFailed
  | MissingFiles | MalformedFiles | MissingPath | MissingPipefd | InheritFailed
  | ReaderFailed | SeekFailed | ConsumeFailed

text \<open>virLogHandlerLogFileFree: NULL is accepted; the pipe is closed, the writer freed, and
  the watch removed unless it is -1.\<close>

definition virLogHandlerLogFileFree :: "virLogHandlerLogFile option \<Rightarrow> world \<Rightarrow> world" where
  "virLogHandlerLogFileFree fo w =
     (case fo of
        None \<Rightarrow> w
      | Some f \<Rightarrow>
          let w1 = VIR_FORCE_CLOSE (pipefd f) w;
              w2 = virRotatingFileWriterFree (wfile f) w1
          in if watch f \<noteq> - 1 then virEventRemoveHandle (watch f) w2 else w2)"

text \<open>virLogHandlerLogFileClose: the first slot holding the entry is deleted and the entry
  freed; nothing happens when the entry is not in the array.\<close>

definition virLogHandlerLogFileClose ::
  "virLogHandler \<Rightarrow> virLogHandlerLogFile \<Rightarrow> world \<Rightarrow> virLogHandler \<times> world" where
  "virLogHandlerLogFileClose handler f w =
     (if f \<in> set (files handler)
      then (handler\<lparr>files := remove1 f (files handler)\<rparr>, virLogHandlerLogFileFree (Some f) w)
      else (handler, w))"

definition virLogHandlerGetLogFileFromWatch ::
  "virLogHandler \<Rightarrow> int \<Rightarrow> virLogHandlerLogFile option" where
  "virLogHandlerGetLogFileFromWatch handler wt = find (\<lambda>f. watch f = wt) (files handler)"

section \<open>The pipe readiness callback\<close>

definition VIR_EVENT_HANDLE_READABLE :: "32 word" where
  "VIR_EVENT_HANDLE_READABLE = 1"

definition VIR_EVENT_HANDLE_HANGUP :: "32 word" where
  "VIR_EVENT_HANDLE_HANGUP = 8"

text \<open>
  The \<open>reread\<close> loop around read(fd, buf, sizeof(buf)) with \<open>char buf[1024]\<close>: the
  environment scripts what successive calls of read return. EINTR goes to the next call; the
  first other outcome leaves the loop, at most 1024 bytes being delivered. A script of EINTR
  only is a loop that does not end (\<open>None\<close>).
\<close>

fun reread :: "read_result list \<Rightarrow> read_result option" where
  "reread [] = None"
| "reread (ReadData bytes # rs) = Some (ReadData (take 1024 bytes))"
| "reread (ReadErr err # rs) = (if err = EINTR then reread rs else Some (ReadErr err))"

text \<open>
  virLogHandlerDomainLogFileEvent. \<open>None\<close> is a callback that does not return: the read
  loop does not end, or the entry's writer is NULL and virRotatingFileWriterAppend
  dereferences it.
\<close>

definition virLogHandlerDomainLogFileEvent ::
  "env \<Rightarrow> int \<Rightarrow> int \<Rightarrow> 32 word \<Rightarrow> virLogHandler \<Rightarrow> world
     \<Rightarrow> (virLogHandler \<times> world) option" where
  "virLogHandlerDomainLogFileEvent e wt fd events handler w =
     (case virLogHandlerGetLogFileFromWatch handler wt of
        None \<Rightarrow> Some (handler, virEventRemoveHandle wt w)
      | Some logfile \<Rightarrow>
          if pipefd logfile \<noteq> fd then Some (handler, virEventRemoveHandle wt w)
          else
            (case reread (reads e) of
               None \<Rightarrow> None
             | Some (ReadErr err) \<Rightarrow> Some (virLogHandlerLogFileClose handler logfile w)
             | Some (ReadData buf) \<Rightarrow>
                 (case wfile logfile of
                    None \<Rightarrow> None
                  | Some wr \<Rightarrow>
                      (case virRotatingFileWriterAppend e wr buf w of
                         (n, w1) \<Rightarrow>
                           if n \<noteq> int (length buf)
                           then Some (virLogHandlerLogFileClose handler logfile w1)
                           else if events AND VIR_EVENT_HANDLE_HANGUP \<noteq> 0
                           then Some (virLogHandlerLogFileClose handler logfile w1)
                           else Some (handler, w1)))))"

section \<open>Construction, disposal and restore\<close>

text \<open>virLogHandlerNew: the object allocation may fail.\<close>

definition virLogHandlerNew :: "env \<Rightarrow> bool \<Rightarrow> virLogHandler option" where
  "virLogHandlerNew e priv =
     (if alloc_fails e 0 AllocHandler then None
      else Some \<lparr>privileged = priv, files = []\<rparr>)"

text \<open>virLogHandlerDispose, run by virObjectUnref on the last reference: every entry of the
  array is freed, in order.\<close>

definition virLogHandlerDispose :: "virLogHandler \<Rightarrow> world \<Rightarrow> world" where
  "virLogHandlerDispose handler w =
     fold (\<lambda>f. virLogHandlerLogFileFree (Some f)) (files handler) w"

text \<open>
  virLogHandlerLogFilePostExecRestart, for element \<open>i\<close> of the document. VIR\_ALLOC zeroes
  the new entry, so until they are assigned its writer is NULL and its watch and pipefd are
  0; the error label frees the entry as it stands.
\<close>

definition virLogHandlerLogFilePostExecRestart ::
  "env \<Rightarrow> nat \<Rightarrow> virJSONValue \<Rightarrow> world \<Rightarrow> (error + virLogHandlerLogFile) \<times> world" where
  "virLogHandlerLogFilePostExecRestart e i object w =
     (if alloc_fails e i AllocFile then (Inl NoMemory, w)
      else
        let f = \<lparr>wfile = None, watch = 0, pipefd = 0\<rparr> in
        (case virJSONValueObjectGetString object ''path'' of
           None \<Rightarrow> (Inl MissingPath, virLogHandlerLogFileFree (Some f) w)
         | Some path \<Rightarrow>
             (case virRotatingFileWriterNew e path DEFAULT_FILE_SIZE DEFAULT_MAX_BACKUP
                     False DEFAULT_MODE w of
                (None, w1) \<Rightarrow> (Inl WriterFailed, virLogHandlerLogFileFree (Some f) w1)
              | (Some wr, w1) \<Rightarrow>
                  let f1 = f\<lparr>wfile := Some wr\<rparr> in
                  (case virJSONValueObjectGetNumberInt object ''pipefd'' of
                     None \<Rightarrow> (Inl MissingPipefd, virLogHandlerLogFileFree (Some f1) w1)
                   | Some fd \<Rightarrow>
                       let f2 = f1\<lparr>pipefd := fd\<rparr> in
                       (case virSetInherit (pipefd f2) False w1 of
                          None \<Rightarrow> (Inl InheritFailed, virLogHandlerLogFileFree (Some f2) w1)
                        | Some w2 \<Rightarrow> (Inr f2, w2))))))"

text \<open>
  The loop of virLogHandlerNewPostExecRestart over the elements from index \<open>i\<close> on. The
  error label drops the handler's last reference, which disposes of the entries that are in
  its array at that moment.
\<close>

fun restore_files ::
  "env \<Rightarrow> nat \<Rightarrow> virJSONValue list \<Rightarrow> virLogHandler \<Rightarrow> world
     \<Rightarrow> (error + virLogHandler) \<times> world" where
  "restore_files e i [] handler w = (Inr handler, w)"
| "restore_files e i (child # rest) handler w =
     (case virLogHandlerLogFilePostExecRestart e i child w of
        (Inl err, w1) \<Rightarrow> (Inl err, virLogHandlerDispose handler w1)
      | (Inr f, w1) \<Rightarrow>
          if alloc_fails e i AppendElement
          then (Inl NoMemory, virLogHandlerDispose handler w1)
          else
            (case virEventAddHandle e (pipefd f) w1 of
               (wt, w2) \<Rightarrow>
                 if wt < 0
                 then (Inl WatchFailed,
                       virLogHandlerDispose
                         (handler\<lparr>files := butlast (files handler @ [f\<lparr>watch := wt\<rparr>])\<rparr>) w2)
                 else restore_files e (Suc i) rest
                        (handler\<lparr>files := files handler @ [f\<lparr>watch := wt\<rparr>]\<rparr>) w2))"

definition virLogHandlerNewPostExecRestart ::
  "env \<Rightarrow> virJSONValue \<Rightarrow> bool \<Rightarrow> world \<Rightarrow> (error + virLogHandler) \<times> world" where
  "virLogHandlerNewPostExecRestart e object priv w =
     (case virLogHandlerNew e priv of
        None \<Rightarrow> (Inl NoMemory, w)
      | Some handler \<Rightarrow>
          (case virJSONValueObjectGet object ''files'' of
             None \<Rightarrow> (Inl MissingFiles, virLogHandlerDispose handler w)
           | Some fs \<Rightarrow>
               if virJSONValueArraySize fs < 0
               then (Inl MalformedFiles, virLogHandlerDispose handler w)
               else
                 (case fs of
                    JArray children \<Rightarrow> restore_files e 0 children handler w
                  | _ \<Rightarrow> (Inl MalformedFiles, virLogHandlerDispose handler w))))"

section \<open>Opening a log file\<close>

text \<open>The duplicate check of virLogHandlerDomainOpenLogFile: the loop reads the path of
  every entry's writer up to the first match; on a NULL writer the read of the path does not
  return (\<open>None\<close>).\<close>

fun path_in_use :: "virLogHandlerLogFile list \<Rightarrow> string \<Rightarrow> bool option" where
  "path_in_use [] path = Some False"
| "path_in_use (f # fs) path =
     (case wfile f of
        None \<Rightarrow> None
      | Some wr \<Rightarrow>
          if virRotatingFileWriterGetPath wr = path then Some True else path_in_use fs path)"

text \<open>The error label of virLogHandlerDomainOpenLogFile, with the values pipefd[0],
  pipefd[1] and file have when it is reached.\<close>

definition open_error :: "int \<Rightarrow> int \<Rightarrow> virLogHandlerLogFile option \<Rightarrow> world \<Rightarrow> world" where
  "open_error pipefd0 pipefd1 fo w =
     virLogHandlerLogFileFree fo (VIR_FORCE_CLOSE pipefd1 (VIR_FORCE_CLOSE pipefd0 w))"

text \<open>
  virLogHandlerDomainOpenLogFile: the result is the error, or pipefd[1] with the inode and
  the offset; the handler and the world are returned as the call leaves them.
\<close>

definition virLogHandlerDomainOpenLogFile ::
  "env \<Rightarrow> virLogHandler \<Rightarrow> string \<Rightarrow> byte list \<Rightarrow> string \<Rightarrow> world
     \<Rightarrow> ((error + int \<times> nat \<times> nat) \<times> virLogHandler \<times> world) option" where
  "virLogHandlerDomainOpenLogFile e handler driver domuuid domname w =
     (case virLogHandlerGetLogFilePathForDomain e handler driver domuuid domname of
        None \<Rightarrow> Some (Inl PathFailed, handler, open_error (- 1) (- 1) None w)
      | Some path \<Rightarrow>
          (case path_in_use (files handler) path of
             None \<Rightarrow> None
           | Some True \<Rightarrow> Some (Inl (Busy path), handler, open_error (- 1) (- 1) None w)
           | Some False \<Rightarrow>
               (case pipe e w of
                  None \<Rightarrow> Some (Inl PipeFailed, handler, open_error (- 1) (- 1) None w)
                | Some ((p0, p1), w1) \<Rightarrow>
                    if alloc_fails e (length (files handler)) AllocFile
                    then Some (Inl NoMemory, handler, open_error p0 p1 None w1)
                    else
                      let f = \<lparr>wfile = None, watch = - 1, pipefd = p0\<rparr> in
                      (case virRotatingFileWriterNew e path DEFAULT_FILE_SIZE
                              DEFAULT_MAX_BACKUP False DEFAULT_MODE w1 of
                         (None, w2) \<Rightarrow>
                           Some (Inl WriterFailed, handler, open_error (- 1) p1 (Some f) w2)
                       | (Some wr, w2) \<Rightarrow>
                           let f1 = f\<lparr>wfile := Some wr\<rparr> in
                           if alloc_fails e (length (files handler)) AppendElement
                           then Some (Inl NoMemory, handler,
                                      open_error (- 1) p1 (Some f1) w2)
                           else
                             (case virEventAddHandle e (pipefd f1) w2 of
                                (wt, w3) \<Rightarrow>
                                  let f2 = f1\<lparr>watch := wt\<rparr> in
                                  if wt < 0
                                  then Some (Inl WatchFailed,
                                             handler\<lparr>files := butlast (files handler @ [f2])\<rparr>,
                                             open_error (- 1) p1 (Some f2) w3)
                                  else Some (Inr (p1,
                                                  virRotatingFileWriterGetINode wr w3,
                                                  virRotatingFileWriterGetOffset wr w3),
                                             handler\<lparr>files := files handler @ [f2]\<rparr>,
                                             w3))))))"

section \<open>Reading a log file\<close>

text \<open>
  Modelled from the spec: the virRotatingFileReader (virrotatingfile.c is not among the
  sources). Section 4.2: \<open>new\<close> builds the chain from the oldest retained backup to the
  current file; \<open>seek\<close> positions the cursor in the chain member with the requested inode
  and fails when there is none; \<open>consume(max_len)\<close> reads up to \<open>max_len\<close> bytes from the
  cursor on, across chain members, and returns fewer only at the end of the chain.
\<close>

record virRotatingFileReader =
  chain :: "logfile list"
  cursor :: nat

definition virRotatingFileReaderNew ::
  "env \<Rightarrow> string \<Rightarrow> nat \<Rightarrow> world \<Rightarrow> virRotatingFileReader option" where
  "virRotatingFileReaderNew e path maxbackup w =
     (if \<not> reader_new_ok e then None
      else Some \<lparr>chain = (case disk w path of
                             None \<Rightarrow> []
                           | Some ls \<Rightarrow> rev (take maxbackup (backups ls)) @ [current ls]),
                  cursor = 0\<rparr>)"

fun seek_chain :: "logfile list \<Rightarrow> nat \<Rightarrow> logfile list option" where
  "seek_chain [] inode = None"
| "seek_chain (f # fs) inode = (if ino f = inode then Some (f # fs) else seek_chain fs inode)"

definition virRotatingFileReaderSeek ::
  "virRotatingFileReader \<Rightarrow> nat \<Rightarrow> nat \<Rightarrow> virRotatingFileReader option" where
  "virRotatingFileReaderSeek r inode offset =
     (case seek_chain (chain r) inode of
        None \<Rightarrow> None
      | Some c \<Rightarrow> Some \<lparr>chain = c, cursor = offset\<rparr>)"

definition virRotatingFileReaderConsume ::
  "env \<Rightarrow> virRotatingFileReader \<Rightarrow> nat \<Rightarrow> byte list option" where
  "virRotatingFileReaderConsume e r maxlen =
     (if \<not> consume_ok e then None
      else
        (case chain r of
           [] \<Rightarrow> Some []
         | f # fs \<Rightarrow>
             Some (take maxlen (drop (cursor r) (content f) @ concat (map content fs)))))"

text \<open>
  virLogHandlerDomainReadLogFile. \<open>maxlen\<close> is a size\_t, so the size \<open>maxlen + 1\<close> of the
  zeroed block that VIR\_ALLOC\_N returns wraps at \<open>2 ^ 64\<close>. The reader stores the bytes
  it consumes from index 0 on and the function stores a NUL at index \<open>got\<close>, without any
  check against the size of the block; the block is returned as it is. A store at an index
  outside the block is not a store into the block (it lands in memory the block does not
  own), so the value returned holds the stores that fall inside it only.
\<close>

definition virLogHandlerDomainReadLogFile ::
  "env \<Rightarrow> virLogHandler \<Rightarrow> string \<Rightarrow> byte list \<Rightarrow> string \<Rightarrow> nat \<Rightarrow> nat \<Rightarrow> 64 word \<Rightarrow> world
     \<Rightarrow> error + byte list" where
  "virLogHandlerDomainReadLogFile e handler driver domuuid domname inode offset maxlen w =
     (case virLogHandlerGetLogFilePathForDomain e handler driver domuuid domname of
        None \<Rightarrow> Inl PathFailed
      | Some path \<Rightarrow>
          (case virRotatingFileReaderNew e path DEFAULT_MAX_BACKUP w of
             None \<Rightarrow> Inl ReaderFailed
           | Some r \<Rightarrow>
               (case virRotatingFileReaderSeek r inode offset of
                  None \<Rightarrow> Inl SeekFailed
                | Some r1 \<Rightarrow>
                    if alloc_fails e 0 AllocData then Inl NoMemory
                    else
                      let data = replicate (unat (maxlen + 1)) (0 :: byte) in
                      (case virRotatingFileReaderConsume e r1 (unat maxlen) of
                         None \<Rightarrow> Inl ConsumeFailed
                       | Some bytes \<Rightarrow>
                           let got = length bytes in
                           Inr ((take (length data) bytes @ drop got data)[got := 0])))))"

section \<open>Capture before re-exec\<close>

text \<open>
  The loop of virLogHandlerPreExecRestart over the entries from index \<open>i\<close> on, \<open>acc\<close>
  being the elements already appended to the "files" array. Each of the four JSON steps may
  fail for want of memory; the path is read from the entry's writer (a NULL writer is
  dereferenced: \<open>None\<close>); the descriptor is made inheritable last. Nothing is undone at
  the error label, which only frees the document.
\<close>

fun capture_files ::
  "env \<Rightarrow> nat \<Rightarrow> virLogHandlerLogFile list \<Rightarrow> virJSONValue list \<Rightarrow> world
     \<Rightarrow> ((error + virJSONValue list) \<times> world) option" where
  "capture_files e i [] acc w = Some (Inr acc, w)"
| "capture_files e i (f # fs) acc w =
     (if alloc_fails e i JsonNewObject then Some (Inl NoMemory, w)
      else if alloc_fails e i JsonArrayAppend then Some (Inl NoMemory, w)
      else if alloc_fails e i JsonAppendPipefd then Some (Inl NoMemory, w)
      else
        (case wfile f of
           None \<Rightarrow> None
         | Some wr \<Rightarrow>
             if alloc_fails e i JsonAppendPath then Some (Inl NoMemory, w)
             else
               (case virSetInherit (pipefd f) True w of
                  None \<Rightarrow> Some (Inl InheritFailed, w)
                | Some w1 \<Rightarrow>
                    capture_files e (Suc i) fs
                      (acc @ [JObject [(''pipefd'', JNumber (pipefd f)),
                                       (''path'', JString (virRotatingFileWriterGetPath wr))]])
                      w1)))"

definition virLogHandlerPreExecRestart ::
  "env \<Rightarrow> virLogHandler \<Rightarrow> world \<Rightarrow> ((error + virJSONValue) \<times> world) option" where
  "virLogHandlerPreExecRestart e handler w =
     (if alloc_fails e 0 JsonRoot then Some (Inl NoMemory, w)
      else if alloc_fails e 0 JsonNewArray then Some (Inl NoMemory, w)
      else if alloc_fails e 0 JsonObjectAppend then Some (Inl NoMemory, w)
      else
        (case capture_files e 0 (files handler) [] w of
           None \<Rightarrow> None
         | Some (Inl err, w1) \<Rightarrow> Some (Inl err, w1)
         | Some (Inr elems, w1) \<Rightarrow> Some (Inr (JObject [(''files'', JArray elems)]), w1)))"

section \<open>Observations and a running example\<close>

text \<open>The content of the current log file at a path.\<close>

definition current_content :: "world \<Rightarrow> string \<Rightarrow> byte list option" where
  "current_content w path =
     (case disk w path of None \<Rightarrow> None | Some ls \<Rightarrow> Some (content (current ls)))"

text \<open>What pipe(2) guarantees of the descriptors it returns: they are not negative and were
  not open before the call.\<close>

definition pipe_fresh :: "env \<Rightarrow> world \<Rightarrow> bool" where
  "pipe_fresh e w =
     (case pipe_res e of
        None \<Rightarrow> True
      | Some (r, wr) \<Rightarrow> 0 \<le> r \<and> 0 \<le> wr \<and> fdtab w r = None \<and> fdtab w wr = None)"

text \<open>Every entry of a handler's array has a writer: entries are appended only once their
  writer exists.\<close>

definition entries_have_writers :: "virLogHandlerLogFile list \<Rightarrow> bool" where
  "entries_have_writers fs = list_all (\<lambda>f. wfile f \<noteq> None) fs"

text \<open>
  A privileged daemon with one guest, vm1 of driver qemu, whose pipe is descriptor 5 under
  watch 1 and whose log holds three bytes; an environment in which every step succeeds; the
  same process right after exec (descriptor 5 inherited, nothing registered yet); and the
  restart document of that handler.
\<close>

definition example_env :: env where
  "example_env =
     \<lparr>LOCALSTATEDIR = ''/var'',
      virGetUserCacheDirectory = Some ''/home/u/.cache/libvirt'',
      asprintf_ok = True,
      alloc_fails = (\<lambda>i site. False),
      pipe_res = Some (7, 8),
      writer_new_ok = (\<lambda>path. True),
      truncates = (\<lambda>flag. flag),
      add_handle = (\<lambda>fd. Some 2),
      reads = [ReadErr EINTR, ReadData [104, 105]],
      append_io = IoAll,
      reader_new_ok = True,
      consume_ok = True\<rparr>"

definition example_path :: string where
  "example_path = ''/var/log/libvirt/qemu/vm1.log''"

definition example_writer :: virRotatingFileWriter where
  "example_writer =
     \<lparr>wpath = example_path, wmaxlen = DEFAULT_FILE_SIZE, wmaxbackup = DEFAULT_MAX_BACKUP,
      wmode = DEFAULT_MODE\<rparr>"

definition example_entry :: virLogHandlerLogFile where
  "example_entry = \<lparr>wfile = Some example_writer, watch = 1, pipefd = 5\<rparr>"

definition example_handler :: virLogHandler where
  "example_handler = \<lparr>privileged = True, files = [example_entry]\<rparr>"

definition example_disk :: "string \<rightharpoonup> logset" where
  "example_disk =
     [example_path \<mapsto> \<lparr>current = \<lparr>ino = 10, content = [111, 108, 100]\<rparr>, backups = []\<rparr>]"

definition example_world :: world where
  "example_world =
     \<lparr>fdtab = [0 \<mapsto> True, 1 \<mapsto> True, 2 \<mapsto> True, 5 \<mapsto> False],
      watches = [1 \<mapsto> 5],
      writers = {#example_path#},
      disk = example_disk,
      next_ino = 11\<rparr>"

definition example_world_after_exec :: world where
  "example_world_after_exec =
     \<lparr>fdtab = [0 \<mapsto> True, 1 \<mapsto> True, 2 \<mapsto> True, 5 \<mapsto> True],
      watches = Map.empty,
      writers = {#},
      disk = example_disk,
      next_ino = 11\<rparr>"

definition example_document :: virJSONValue where
  "example_document =
     JObject [(''files'',
        JArray [JObject [(''pipefd'', JNumber 5), (''path'', JString example_path)]])]"

definition example_env_no_watch :: env where
  "example_env_no_watch = example_env\<lparr>add_handle := (\<lambda>fd. None)\<rparr>"

definition example_env_eof :: env where
  "example_env_eof = example_env\<lparr>reads := [ReadData []]\<rparr>"

definition empty_handler :: virLogHandler where
  "empty_handler = \<lparr>privileged = True, files = []\<rparr>"

text \<open>A second entry whose descriptor 6 is not open, so that virSetInherit fails on it.\<close>

definition example_entry_closed :: virLogHandlerLogFile where
  "example_entry_closed =
     \<lparr>wfile = Some (example_writer\<lparr>wpath := ''/var/log/libvirt/qemu/vm2.log''\<rparr>),
      watch = 3, pipefd = 6\<rparr>"

definition example_handler_two :: virLogHandler where
  "example_handler_two = \<lparr>privileged = True, files = [example_entry, example_entry_closed]\<rparr>"

text \<open>Following the spec's words (section 4.5, capture): the \<open>{path, pipefd}\<close> pair of an
  entry, \<open>path\<close> being the path of its writer.\<close>

definition document_pair :: "virLogHandlerLogFile \<Rightarrow> virRotatingFileWriter \<Rightarrow> virJSONValue" where
  "document_pair f wr = JObject [(''pipefd'', JNumber (pipefd f)), (''path'', JString (wpath wr))]"


section \<open>Evaluation rules\<close>

lemmas example_defs =
  example_env_def example_path_def example_writer_def example_entry_def example_handler_def
  example_disk_def example_world_def example_world_after_exec_def example_document_def
  example_env_no_watch_def example_env_eof_def empty_handler_def example_entry_closed_def
  example_handler_two_def

lemmas op_defs =
  virLogHandlerGetLogFilePathForDomain_def VIR_FORCE_CLOSE_def pipe_def virSetInherit_def
  virEventAddHandle_def virEventRemoveHandle_def virRotatingFileWriterNew_def
  virRotatingFileWriterFree_def virRotatingFileWriterGetPath_def
  virRotatingFileWriterGetINode_def virRotatingFileWriterGetOffset_def rotate_def written_def
  virRotatingFileWriterAppend_def virJSONValueObjectGet_def virJSONValueObjectGetString_def
  virJSONValueObjectGetNumberInt_def virJSONValueArraySize_def virLogHandlerLogFileFree_def
  virLogHandlerLogFileClose_def virLogHandlerGetLogFileFromWatch_def
  virLogHandlerNew_def virLogHandlerDispose_def virLogHandlerLogFilePostExecRestart_def
  virLogHandlerNewPostExecRestart_def open_error_def virLogHandlerDomainOpenLogFile_def
  DEFAULT_FILE_SIZE_def DEFAULT_MAX_BACKUP_def DEFAULT_MODE_def current_content_def
  pipe_fresh_def entries_have_writers_def virLogHandlerDomainLogFileEvent_def
  VIR_EVENT_HANDLE_READABLE_def VIR_EVENT_HANDLE_HANGUP_def

section \<open>Path derivation is a function of the mode, the driver and the guest name\<close>

text \<open>
  Claim C8. The derived path does not depend on the UUID nor on anything of the handler but
  its \<open>privileged\<close> flag: two calls that agree on (privileged, driver, guest name) give the
  same path. In privileged mode it is LOCALSTATEDIR/log/libvirt/DRIVER/NAME.log, in
  unprivileged mode CACHEDIR/DRIVER/log/NAME.log (whenever the string can be allocated).
\<close>

theorem path_derivation_pure:
  "(privileged h = privileged h' \<longrightarrow>
      virLogHandlerGetLogFilePathForDomain e h driver uuid name =
      virLogHandlerGetLogFilePathForDomain e h' driver uuid' name)
   \<and> (privileged h \<and> asprintf_ok e \<longrightarrow>
      virLogHandlerGetLogFilePathForDomain e h driver uuid name =
      Some (LOCALSTATEDIR e @ ''/log/libvirt/'' @ driver @ ''/'' @ name @ ''.log''))
   \<and> (\<not> privileged h \<and> asprintf_ok e \<and> virGetUserCacheDirectory e = Some c \<longrightarrow>
      virLogHandlerGetLogFilePathForDomain e h driver uuid name =
      Some (c @ ''/'' @ driver @ ''/log/'' @ name @ ''.log''))"
  by (simp add: virLogHandlerGetLogFilePathForDomain_def)

theorem path_derivation_pure_witness:
  "virLogHandlerGetLogFilePathForDomain example_env example_handler ''qemu'' [1, 2] ''vm1'' =
     virLogHandlerGetLogFilePathForDomain example_env \<lparr>privileged = True, files = []\<rparr>
       ''qemu'' [3] ''vm1''
   \<and> virLogHandlerGetLogFilePathForDomain example_env example_handler ''qemu'' [1, 2] ''vm1'' =
     Some ''/var/log/libvirt/qemu/vm1.log''
   \<and> virLogHandlerGetLogFilePathForDomain example_env \<lparr>privileged = False, files = []\<rparr>
       ''qemu'' [1, 2] ''vm1'' = Some ''/home/u/.cache/libvirt/qemu/log/vm1.log''"
proof (intro conjI)
  show "virLogHandlerGetLogFilePathForDomain example_env example_handler ''qemu'' [1, 2] ''vm1'' =
     virLogHandlerGetLogFilePathForDomain example_env \<lparr>privileged = True, files = []\<rparr>
       ''qemu'' [3] ''vm1''"
    by (rule path_derivation_pure [THEN conjunct1, THEN mp]) (simp add: example_handler_def)
  have "virLogHandlerGetLogFilePathForDomain example_env example_handler ''qemu'' [1, 2] ''vm1'' =
     Some (LOCALSTATEDIR example_env @ ''/log/libvirt/'' @ ''qemu'' @ ''/'' @ ''vm1'' @ ''.log'')"
    by (rule path_derivation_pure [THEN conjunct2, THEN conjunct1, THEN mp])
       (simp add: example_handler_def example_env_def)
  then show "virLogHandlerGetLogFilePathForDomain example_env example_handler ''qemu'' [1, 2] ''vm1'' =
     Some ''/var/log/libvirt/qemu/vm1.log''"
    by (simp add: example_env_def)
  have "virLogHandlerGetLogFilePathForDomain example_env \<lparr>privileged = False, files = []\<rparr>
       ''qemu'' [1, 2] ''vm1'' =
     Some (''/home/u/.cache/libvirt'' @ ''/'' @ ''qemu'' @ ''/log/'' @ ''vm1'' @ ''.log'')"
    by (rule path_derivation_pure [THEN conjunct2, THEN conjunct2, THEN mp])
       (simp add: example_env_def)
  then show "virLogHandlerGetLogFilePathForDomain example_env \<lparr>privileged = False, files = []\<rparr>
       ''qemu'' [1, 2] ''vm1'' = Some ''/home/u/.cache/libvirt/qemu/log/vm1.log''"
    by simp
qed

section \<open>Opening: duplicates and failures\<close>

lemma path_in_use_True:
  "entries_have_writers fs \<Longrightarrow>
   \<exists>f\<in>set fs. \<exists>wr. wfile f = Some wr \<and> virRotatingFileWriterGetPath wr = path \<Longrightarrow>
   path_in_use fs path = Some True"
  by (induction fs) (auto simp: entries_have_writers_def split: option.splits)

lemma path_in_use_total:
  "entries_have_writers fs \<Longrightarrow> \<exists>b. path_in_use fs path = Some b"
  by (induction fs) (auto simp: entries_have_writers_def split: option.splits)

lemma open_error_nothing: "open_error (- 1) (- 1) None w = w"
  by (simp add: open_error_def VIR_FORCE_CLOSE_def virLogHandlerLogFileFree_def)

text \<open>
  Claim C2. When the handler already has an entry whose writer's path is the derived path,
  virLogHandlerDomainOpenLogFile fails with the busy error, and the handler and the world
  (descriptors, watches, writers, files) are exactly as before the call.
\<close>

theorem open_duplicate_is_busy:
  assumes "virLogHandlerGetLogFilePathForDomain e h driver uuid name = Some path"
      and "entries_have_writers (files h)"
      and "\<exists>f\<in>set (files h). \<exists>wr. wfile f = Some wr \<and> virRotatingFileWriterGetPath wr = path"
  shows "virLogHandlerDomainOpenLogFile e h driver uuid name w = Some (Inl (Busy path), h, w)"
  using assms path_in_use_True [of "files h" path]
  by (simp add: virLogHandlerDomainOpenLogFile_def open_error_nothing)

theorem open_duplicate_is_busy_witness:
  "virLogHandlerDomainOpenLogFile example_env example_handler ''qemu'' [] ''vm1'' example_world =
     Some (Inl (Busy example_path), example_handler, example_world)"
proof (rule open_duplicate_is_busy)
  show "virLogHandlerGetLogFilePathForDomain example_env example_handler ''qemu'' [] ''vm1'' =
          Some example_path"
    by (simp add: example_defs virLogHandlerGetLogFilePathForDomain_def)
  show "entries_have_writers (files example_handler)"
    by (simp add: example_defs entries_have_writers_def)
  show "\<exists>f\<in>set (files example_handler). \<exists>wr. wfile f = Some wr \<and>
          virRotatingFileWriterGetPath wr = example_path"
    by (simp add: example_defs virRotatingFileWriterGetPath_def)
qed

text \<open>
  Claim C3. Whatever step of virLogHandlerDomainOpenLogFile fails (path derivation, the
  duplicate check, pipe creation, the allocation of the entry, writer creation, the append
  to the array, watch registration), the call leaves the handler's array, the descriptor
  table, the event loop's registrations and the live writers as they were: both pipe ends
  are closed, the writer is freed, and the entry is neither registered nor in the array.
\<close>

theorem open_failure_unwinds:
  assumes "virLogHandlerDomainOpenLogFile e h driver uuid name w = Some (Inl err, h', w')"
      and "pipe_fresh e w"
  shows "h' = h \<and> fdtab w' = fdtab w \<and> watches w' = watches w \<and> writers w' = writers w"
  using assms
  apply (simp add: virLogHandlerDomainOpenLogFile_def open_error_nothing pipe_fresh_def
       split: option.splits bool.splits prod.splits if_splits)
  apply (auto simp: open_error_def VIR_FORCE_CLOSE_def virLogHandlerLogFileFree_def pipe_def
      virRotatingFileWriterNew_def virRotatingFileWriterFree_def virEventAddHandle_def
      virEventRemoveHandle_def Let_def
       split: option.splits bool.splits prod.splits if_splits)
  done

theorem open_failure_unwinds_witness:
  "fst (the (virLogHandlerDomainOpenLogFile example_env_no_watch empty_handler ''qemu'' []
               ''vm1'' example_world_after_exec)) = Inl WatchFailed
   \<and> fst (snd (the (virLogHandlerDomainOpenLogFile example_env_no_watch empty_handler ''qemu'' []
               ''vm1'' example_world_after_exec))) = empty_handler
   \<and> fdtab (snd (snd (the (virLogHandlerDomainOpenLogFile example_env_no_watch empty_handler
               ''qemu'' [] ''vm1'' example_world_after_exec)))) = fdtab example_world_after_exec
   \<and> watches (snd (snd (the (virLogHandlerDomainOpenLogFile example_env_no_watch empty_handler
               ''qemu'' [] ''vm1'' example_world_after_exec)))) = watches example_world_after_exec
   \<and> writers (snd (snd (the (virLogHandlerDomainOpenLogFile example_env_no_watch empty_handler
               ''qemu'' [] ''vm1'' example_world_after_exec)))) = writers example_world_after_exec"
proof -
  have "\<exists>h' w'. virLogHandlerDomainOpenLogFile example_env_no_watch empty_handler ''qemu'' []
               ''vm1'' example_world_after_exec = Some (Inl WatchFailed, h', w')"
    by (simp add: example_defs op_defs Let_def)
  then obtain h' w' where r: "virLogHandlerDomainOpenLogFile example_env_no_watch empty_handler
      ''qemu'' [] ''vm1'' example_world_after_exec = Some (Inl WatchFailed, h', w')"
    by blast
  have f: "pipe_fresh example_env_no_watch example_world_after_exec"
    by (simp add: example_defs pipe_fresh_def)
  from open_failure_unwinds [OF r f] r show ?thesis by simp
qed

section \<open>Restore: what becomes of the log content\<close>







text \<open>The restore and the open create the writer with the same arguments, the flag
  included: where one truncates, so does the other.\<close>

lemma restore_creates_writer_as_open_does:
  assumes "virLogHandlerLogFilePostExecRestart e i obj w = (Inr f, w')"
  shows "\<exists>path w1. virJSONValueObjectGetString obj ''path'' = Some path
          \<and> virRotatingFileWriterNew e path DEFAULT_FILE_SIZE DEFAULT_MAX_BACKUP False
                DEFAULT_MODE w = (wfile f, w1)
          \<and> disk w' = disk w1"
  using assms
  by (auto simp: virLogHandlerLogFilePostExecRestart_def virSetInherit_def Let_def
      split: option.splits if_splits prod.splits)

section \<open>Restore: what a failure releases\<close>

text \<open>
  Claim C4 fails on the code. When virEventAddHandle fails for an element, the loop of
  virLogHandlerNewPostExecRestart deletes the entry from the array and jumps to the error
  label, which disposes of the handler only: the entry just reconstructed is not freed. In
  the example the restore returns an error while descriptor 5 is still open and the writer
  of the log is still live (there was none before the call). The error label of
  virLogHandlerDomainOpenLogFile frees the entry on the same failure.
\<close>

theorem restore_watch_failure_leaks:
  "fst (virLogHandlerNewPostExecRestart example_env_no_watch example_document True
          example_world_after_exec) = Inl WatchFailed
   \<and> fdtab (snd (virLogHandlerNewPostExecRestart example_env_no_watch example_document True
          example_world_after_exec)) 5 = Some False
   \<and> writers (snd (virLogHandlerNewPostExecRestart example_env_no_watch example_document True
          example_world_after_exec)) = {#example_path#}
   \<and> writers example_world_after_exec = {#}"
  by (simp add: example_defs op_defs Let_def)

text \<open>A second effect of the same error paths: an element without "path" is freed while its
  pipefd and watch are still the zeroes of VIR\_ALLOC, which closes descriptor 0 and removes
  watch 0, neither of which the entry owned.\<close>

lemma restore_missing_path_closes_fd0:
  "fst (virLogHandlerNewPostExecRestart example_env
          (JObject [(''files'', JArray [JObject [(''pipefd'', JNumber 5)]])]) True
          example_world_after_exec) = Inl MissingPath
   \<and> fdtab example_world_after_exec 0 = Some True
   \<and> fdtab (snd (virLogHandlerNewPostExecRestart example_env
          (JObject [(''files'', JArray [JObject [(''pipefd'', JNumber 5)]])]) True
          example_world_after_exec)) 0 = None"
  by (simp add: example_defs op_defs Let_def)

text \<open>What does hold of a restore that fails: no handler is returned, whatever the cause
  (by the type of the result), and a document without a "files" array is rejected.\<close>

lemma restore_rejects_malformed:
  "virJSONValueObjectGet doc ''files'' = None \<Longrightarrow> \<not> alloc_fails e 0 AllocHandler \<Longrightarrow>
     virLogHandlerNewPostExecRestart e doc priv w = (Inl MissingFiles, w)"
  "virJSONValueObjectGet doc ''files'' = Some v \<Longrightarrow> virJSONValueArraySize v < 0 \<Longrightarrow>
     \<not> alloc_fails e 0 AllocHandler \<Longrightarrow>
     virLogHandlerNewPostExecRestart e doc priv w = (Inl MalformedFiles, w)"
  by (simp_all add: virLogHandlerNewPostExecRestart_def virLogHandlerNew_def
      virLogHandlerDispose_def)

section \<open>The readiness callback: reading\<close>

lemma reread_bound: "reread rs = Some (ReadData buf) \<Longrightarrow> length buf \<le> 1024"
  by (induction rs rule: reread.induct) (auto split: if_splits)

lemma reread_no_eintr: "reread rs \<noteq> Some (ReadErr EINTR)"
  by (induction rs rule: reread.induct) auto

lemma found_in_files:
  "virLogHandlerGetLogFileFromWatch h wt = Some lf \<Longrightarrow> lf \<in> set (files h) \<and> watch lf = wt"
  by (auto simp: virLogHandlerGetLogFileFromWatch_def find_Some_iff)

lemma close_found:
  assumes "virLogHandlerGetLogFileFromWatch h wt = Some lf" "wfile lf = Some wr"
    "0 \<le> pipefd lf" "wt \<noteq> - 1"
  shows "virLogHandlerLogFileClose h lf w =
           (h\<lparr>files := remove1 lf (files h)\<rparr>,
            w\<lparr>fdtab := (fdtab w)(pipefd lf := None),
              writers := writers w - {#wpath wr#},
              watches := (watches w)(wt := None)\<rparr>)"
  using assms found_in_files [OF assms(1)]
  by (simp add: virLogHandlerLogFileClose_def virLogHandlerLogFileFree_def VIR_FORCE_CLOSE_def
      virRotatingFileWriterFree_def virEventRemoveHandle_def Let_def)

lemma append_ignores_reads:
  "virRotatingFileWriterAppend (e\<lparr>reads := rs\<rparr>) wr buf w =
   virRotatingFileWriterAppend e wr buf w"
  by (simp add: virRotatingFileWriterAppend_def)

lemma callback_eintr_retry:
  "virLogHandlerDomainLogFileEvent (e\<lparr>reads := ReadErr EINTR # reads e\<rparr>) wt fd ev h w =
   virLogHandlerDomainLogFileEvent e wt fd ev h w"
  by (simp add: virLogHandlerDomainLogFileEvent_def append_ignores_reads
      split: option.splits read_result.splits)

lemma reread_None_iff: "reread rs = None \<longleftrightarrow> (\<forall>r\<in>set rs. r = ReadErr EINTR)"
  by (induction rs rule: reread.induct) auto

text \<open>
  Claim C5, as the specification states it, fails for a read of zero bytes: the callback
  tests \<open>len < 0\<close> only, so a read that returns 0 is forwarded as an empty append, and
  when that append returns 0 and the event has no hangup bit the entry stays in the handler
  with its descriptor and its watch.
\<close>

theorem zero_read_keeps_entry_counterexample:
  "reread (reads example_env_eof) = Some (ReadData [])
   \<and> map_option fst (virLogHandlerDomainLogFileEvent example_env_eof 1 5
        VIR_EVENT_HANDLE_READABLE example_handler example_world) = Some example_handler
   \<and> map_option (fdtab \<circ> snd) (virLogHandlerDomainLogFileEvent example_env_eof 1 5
        VIR_EVENT_HANDLE_READABLE example_handler example_world) = Some (fdtab example_world)
   \<and> map_option (watches \<circ> snd) (virLogHandlerDomainLogFileEvent example_env_eof 1 5
        VIR_EVENT_HANDLE_READABLE example_handler example_world) = Some (watches example_world)"
  by (simp add: example_defs op_defs Let_def)

text \<open>
  Claim C5, amended. For the entry found under the watch, with that descriptor and a writer:
  a read delivers at most 1024 bytes; a read that fails with EINTR is repeated at once (the
  callback behaves as if that call had not been made); every other failed read, would-block
  included, closes the entry; a read that succeeds, with zero bytes or more, closes the
  entry exactly when the writer's append does not return the number of bytes read or the
  event has the hangup bit. Closing removes the entry from the array, closes its pipe,
  frees its writer and removes its watch.
\<close>

theorem callback_read_outcomes:
  assumes "virLogHandlerGetLogFileFromWatch h wt = Some lf"
      and "pipefd lf = fd" and "wfile lf = Some wr"
      and "0 \<le> fd" and "wt \<noteq> - 1"
  shows "(\<forall>buf. reread (reads e) = Some (ReadData buf) \<longrightarrow> length buf \<le> 1024)
    \<and> virLogHandlerDomainLogFileEvent (e\<lparr>reads := ReadErr EINTR # reads e\<rparr>) wt fd ev h w =
        virLogHandlerDomainLogFileEvent e wt fd ev h w
    \<and> (\<forall>err. reread (reads e) = Some (ReadErr err) \<longrightarrow>
          virLogHandlerDomainLogFileEvent e wt fd ev h w =
            Some (virLogHandlerLogFileClose h lf w))
    \<and> (\<forall>buf. reread (reads e) = Some (ReadData buf) \<longrightarrow>
          virLogHandlerDomainLogFileEvent e wt fd ev h w =
            Some (if fst (virRotatingFileWriterAppend e wr buf w) \<noteq> int (length buf)
                     \<or> ev AND VIR_EVENT_HANDLE_HANGUP \<noteq> 0
                  then virLogHandlerLogFileClose h lf (snd (virRotatingFileWriterAppend e wr buf w))
                  else (h, snd (virRotatingFileWriterAppend e wr buf w))))
    \<and> (\<forall>w0. virLogHandlerLogFileClose h lf w0 =
          (h\<lparr>files := remove1 lf (files h)\<rparr>,
           w0\<lparr>fdtab := (fdtab w0)(fd := None),
              writers := writers w0 - {#wpath wr#},
              watches := (watches w0)(wt := None)\<rparr>))"
proof -
  have c: "\<forall>w0. virLogHandlerLogFileClose h lf w0 =
          (h\<lparr>files := remove1 lf (files h)\<rparr>,
           w0\<lparr>fdtab := (fdtab w0)(fd := None),
              writers := writers w0 - {#wpath wr#},
              watches := (watches w0)(wt := None)\<rparr>)"
    using close_found [of h wt lf wr] assms by simp
  have "(\<forall>buf. reread (reads e) = Some (ReadData buf) \<longrightarrow> length buf \<le> 1024)
    \<and> virLogHandlerDomainLogFileEvent (e\<lparr>reads := ReadErr EINTR # reads e\<rparr>) wt fd ev h w =
        virLogHandlerDomainLogFileEvent e wt fd ev h w
    \<and> (\<forall>err. reread (reads e) = Some (ReadErr err) \<longrightarrow>
          virLogHandlerDomainLogFileEvent e wt fd ev h w =
            Some (virLogHandlerLogFileClose h lf w))
    \<and> (\<forall>buf. reread (reads e) = Some (ReadData buf) \<longrightarrow>
          virLogHandlerDomainLogFileEvent e wt fd ev h w =
            Some (if fst (virRotatingFileWriterAppend e wr buf w) \<noteq> int (length buf)
                     \<or> ev AND VIR_EVENT_HANDLE_HANGUP \<noteq> 0
                  then virLogHandlerLogFileClose h lf (snd (virRotatingFileWriterAppend e wr buf w))
                  else (h, snd (virRotatingFileWriterAppend e wr buf w))))"
    using assms(1-3) callback_eintr_retry [of e wt fd ev h w]
    by (auto simp: virLogHandlerDomainLogFileEvent_def dest: reread_bound split: prod.splits)
  with c show ?thesis by blast
qed

theorem callback_read_outcomes_witness:
  "virLogHandlerDomainLogFileEvent (example_env\<lparr>reads := [ReadErr EAGAIN]\<rparr>) 1 5
      VIR_EVENT_HANDLE_READABLE example_handler example_world =
     Some (empty_handler,
           example_world\<lparr>fdtab := (fdtab example_world)(5 := None),
                          writers := writers example_world - {#example_path#},
                          watches := (watches example_world)(1 := None)\<rparr>)
   \<and> virLogHandlerDomainLogFileEvent example_env 1 5
      VIR_EVENT_HANDLE_READABLE example_handler example_world =
     Some (example_handler,
           snd (virRotatingFileWriterAppend example_env example_writer [104, 105]
                  example_world))
   \<and> length [104, 105 :: byte] \<le> 1024"
proof -
  let ?e = "example_env\<lparr>reads := [ReadErr EAGAIN]\<rparr>"
  have a: "virLogHandlerGetLogFileFromWatch example_handler 1 = Some example_entry"
    by (simp add: example_defs virLogHandlerGetLogFileFromWatch_def)
  have b: "pipefd example_entry = 5" and c: "wfile example_entry = Some example_writer"
    by (simp_all add: example_defs)
  have r: "reread (reads ?e) = Some (ReadErr EAGAIN)"
    by simp
  note T = callback_read_outcomes [OF a b c, of ?e VIR_EVENT_HANDLE_READABLE example_world]
  from T r have
    "virLogHandlerDomainLogFileEvent ?e 1 5 VIR_EVENT_HANDLE_READABLE example_handler
       example_world =
     Some (example_handler\<lparr>files := remove1 example_entry (files example_handler)\<rparr>,
           example_world\<lparr>fdtab := (fdtab example_world)(5 := None),
                          writers := writers example_world - {#wpath example_writer#},
                          watches := (watches example_world)(1 := None)\<rparr>)"
    by simp
  then have first: "virLogHandlerDomainLogFileEvent ?e 1 5 VIR_EVENT_HANDLE_READABLE
       example_handler example_world =
     Some (empty_handler,
           example_world\<lparr>fdtab := (fdtab example_world)(5 := None),
                          writers := writers example_world - {#example_path#},
                          watches := (watches example_world)(1 := None)\<rparr>)"
    by (simp add: example_handler_def empty_handler_def example_writer_def)
  have r2: "reread (reads example_env) = Some (ReadData [104, 105])"
    by (simp add: example_env_def)
  have n: "fst (virRotatingFileWriterAppend example_env example_writer [104, 105]
                  example_world) = 2"
    by (simp add: example_defs op_defs Let_def)
  have ev: "VIR_EVENT_HANDLE_READABLE AND VIR_EVENT_HANDLE_HANGUP = 0"
    by (simp add: VIR_EVENT_HANDLE_READABLE_def VIR_EVENT_HANDLE_HANGUP_def)
  note T2 = callback_read_outcomes
              [OF a b c, of example_env VIR_EVENT_HANDLE_READABLE example_world]
  from T2 r2 n ev have second: "virLogHandlerDomainLogFileEvent example_env 1 5
      VIR_EVENT_HANDLE_READABLE example_handler example_world =
     Some (example_handler,
           snd (virRotatingFileWriterAppend example_env example_writer [104, 105]
                  example_world))
     \<and> length [104, 105 :: byte] \<le> 1024"
    by simp
  from first second show ?thesis by blast
qed

section \<open>The readiness callback: appending and hangup\<close>

lemma append_full_content:
  "virRotatingFileWriterAppend e wr buf w = (n, w1) \<Longrightarrow> n = int (length buf) \<Longrightarrow>
   \<exists>pre. current_content w1 (wpath wr) = Some (pre @ buf)"
  by (auto simp: virRotatingFileWriterAppend_def written_def current_content_def Let_def
      split: if_splits io.splits)

lemma close_keeps_disk: "disk (snd (virLogHandlerLogFileClose h lf w)) = disk w"
  by (simp add: virLogHandlerLogFileClose_def virLogHandlerLogFileFree_def VIR_FORCE_CLOSE_def
      virRotatingFileWriterFree_def virEventRemoveHandle_def Let_def split: option.splits)

text \<open>
  Claim C6. When the read has delivered the bytes \<open>buf\<close>, they are handed to the writer's
  append first, which leaves the world \<open>w1\<close>. If the append returns another number than
  the bytes read, or the event has the hangup bit, the callback closes the entry in
  \<open>w1\<close>: the entry is removed from the handler's array, its pipe is closed, its writer
  freed and its watch removed, and nothing else of \<open>w1\<close> changes. When the append has
  returned the number of bytes read, the current log file of the world the callback leaves
  ends with \<open>buf\<close>: on hangup the last chunk is in the log when the entry goes.
\<close>

theorem hangup_drains_then_closes:
  assumes "virLogHandlerGetLogFileFromWatch h wt = Some lf"
      and "pipefd lf = fd" and "wfile lf = Some wr"
      and "0 \<le> fd" and "wt \<noteq> - 1"
      and "reread (reads e) = Some (ReadData buf)"
      and "virRotatingFileWriterAppend e wr buf w = (n, w1)"
  shows "(n \<noteq> int (length buf) \<or> ev AND VIR_EVENT_HANDLE_HANGUP \<noteq> 0 \<longrightarrow>
            virLogHandlerDomainLogFileEvent e wt fd ev h w =
              Some (h\<lparr>files := remove1 lf (files h)\<rparr>,
                    w1\<lparr>fdtab := (fdtab w1)(fd := None),
                       writers := writers w1 - {#wpath wr#},
                       watches := (watches w1)(wt := None)\<rparr>))
    \<and> (n = int (length buf) \<longrightarrow>
          (\<exists>pre. current_content
                   (w1\<lparr>fdtab := (fdtab w1)(fd := None),
                      writers := writers w1 - {#wpath wr#},
                      watches := (watches w1)(wt := None)\<rparr>) (wpath wr) = Some (pre @ buf)))
    \<and> lf \<in> set (files h)
    \<and> Suc (length (remove1 lf (files h))) = length (files h)"
proof -
  have c: "virLogHandlerLogFileClose h lf w1 =
          (h\<lparr>files := remove1 lf (files h)\<rparr>,
           w1\<lparr>fdtab := (fdtab w1)(fd := None),
              writers := writers w1 - {#wpath wr#},
              watches := (watches w1)(wt := None)\<rparr>)"
    using close_found [of h wt lf wr w1] assms(1-5) by simp
  have m: "lf \<in> set (files h)"
    using found_in_files [OF assms(1)] by simp
  then have l: "Suc (length (remove1 lf (files h))) = length (files h)"
    using length_pos_if_in_set [OF m] by (simp add: length_remove1)
  have 1: "n \<noteq> int (length buf) \<or> ev AND VIR_EVENT_HANDLE_HANGUP \<noteq> 0 \<longrightarrow>
            virLogHandlerDomainLogFileEvent e wt fd ev h w =
              Some (virLogHandlerLogFileClose h lf w1)"
    using assms by (simp add: virLogHandlerDomainLogFileEvent_def)
  have 2: "n = int (length buf) \<longrightarrow>
          (\<exists>pre. current_content
                   (w1\<lparr>fdtab := (fdtab w1)(fd := None),
                      writers := writers w1 - {#wpath wr#},
                      watches := (watches w1)(wt := None)\<rparr>) (wpath wr) = Some (pre @ buf))"
    using append_full_content [OF assms(7)] by (simp add: current_content_def)
  from 1 2 c m l show ?thesis by simp
qed

theorem hangup_drains_then_closes_witness:
  "virLogHandlerDomainLogFileEvent example_env 1 5
      (VIR_EVENT_HANDLE_READABLE OR VIR_EVENT_HANDLE_HANGUP) example_handler example_world =
     Some (empty_handler,
           \<lparr>fdtab = [0 \<mapsto> True, 1 \<mapsto> True, 2 \<mapsto> True],
            watches = Map.empty,
            writers = {#},
            disk = [example_path \<mapsto>
                      \<lparr>current = \<lparr>ino = 10, content = [111, 108, 100, 104, 105]\<rparr>,
                       backups = []\<rparr>],
            next_ino = 11\<rparr>)
   \<and> fdtab example_world 5 = Some False
   \<and> watches example_world 1 = Some 5
   \<and> writers example_world = {#example_path#}"
proof -
  let ?w1 = "example_world\<lparr>disk := [example_path \<mapsto>
                      \<lparr>current = \<lparr>ino = 10, content = [111, 108, 100, 104, 105]\<rparr>,
                       backups = []\<rparr>]\<rparr>"
  have a: "virLogHandlerGetLogFileFromWatch example_handler 1 = Some example_entry"
    by (simp add: example_defs virLogHandlerGetLogFileFromWatch_def)
  have b: "pipefd example_entry = 5" and c: "wfile example_entry = Some example_writer"
    by (simp_all add: example_defs)
  have r: "reread (reads example_env) = Some (ReadData [104, 105])"
    by (simp add: example_env_def)
  have ap: "virRotatingFileWriterAppend example_env example_writer [104, 105] example_world
              = (2, ?w1)"
    by (simp add: example_defs op_defs Let_def)
  have ev: "(VIR_EVENT_HANDLE_READABLE OR VIR_EVENT_HANDLE_HANGUP) AND VIR_EVENT_HANDLE_HANGUP
              \<noteq> 0"
    by (simp add: VIR_EVENT_HANDLE_READABLE_def VIR_EVENT_HANDLE_HANGUP_def)
  note T = hangup_drains_then_closes [OF a b c _ _ r ap,
             of "VIR_EVENT_HANDLE_READABLE OR VIR_EVENT_HANDLE_HANGUP"]
  from T ev have
    "virLogHandlerDomainLogFileEvent example_env 1 5
      (VIR_EVENT_HANDLE_READABLE OR VIR_EVENT_HANDLE_HANGUP) example_handler example_world =
     Some (example_handler\<lparr>files := remove1 example_entry (files example_handler)\<rparr>,
           ?w1\<lparr>fdtab := (fdtab ?w1)(5 := None),
              writers := writers ?w1 - {#wpath example_writer#},
              watches := (watches ?w1)(1 := None)\<rparr>)"
    by simp
  then show ?thesis
    by (simp add: example_defs)
qed

section \<open>Capture: the document and the descriptors\<close>

lemma set_inherit_True:
  "virSetInherit fd True w = Some w1 \<Longrightarrow>
     fdtab w1 = (fdtab w)(fd \<mapsto> True) \<and> watches w1 = watches w \<and> writers w1 = writers w
     \<and> disk w1 = disk w \<and> next_ino w1 = next_ino w"
  by (auto simp: virSetInherit_def split: option.splits)

lemma capture_files_ok:
  "capture_files e i fs acc w = Some (Inr elems, w') \<Longrightarrow>
     (\<exists>wrs. map wfile fs = map Some wrs \<and> elems = acc @ map2 document_pair fs wrs)
     \<and> (\<forall>f\<in>set fs. fdtab w' (pipefd f) = Some True)
     \<and> (\<forall>fd. fdtab w fd = Some True \<longrightarrow> fdtab w' fd = Some True)
     \<and> (\<forall>fd. fd \<notin> pipefd ` set fs \<longrightarrow> fdtab w' fd = fdtab w fd)
     \<and> watches w' = watches w \<and> writers w' = writers w \<and> disk w' = disk w"
proof (induction fs arbitrary: i acc w)
  case Nil
  then show ?case by simp
next
  case (Cons f fs)
  from Cons.prems obtain wr w1 where
    wr: "wfile f = Some wr" and
    inh: "virSetInherit (pipefd f) True w = Some w1" and
    rest: "capture_files e (Suc i) fs (acc @ [document_pair f wr]) w1 = Some (Inr elems, w')"
    by (auto simp: document_pair_def virRotatingFileWriterGetPath_def
        split: if_splits option.splits)
  note IH = Cons.IH [OF rest]
  note s = set_inherit_True [OF inh]
  from IH obtain wrs where
    wrs: "map wfile fs = map Some wrs" "elems = (acc @ [document_pair f wr]) @ map2 document_pair fs wrs"
    by blast
  have 1: "\<exists>wrs. map wfile (f # fs) = map Some wrs \<and> elems = acc @ map2 document_pair (f # fs) wrs"
    using wr wrs by (intro exI [of _ "wr # wrs"]) simp
  have 2: "\<forall>g\<in>set (f # fs). fdtab w' (pipefd g) = Some True"
    using IH s by simp
  have 3: "\<forall>fd. fdtab w fd = Some True \<longrightarrow> fdtab w' fd = Some True"
    using IH s by simp
  have 4: "\<forall>fd. fd \<notin> pipefd ` set (f # fs) \<longrightarrow> fdtab w' fd = fdtab w fd"
    using IH s by simp
  have 5: "watches w' = watches w \<and> writers w' = writers w \<and> disk w' = disk w"
    using IH s by simp
  from 1 2 3 4 5 show ?case by blast
qed

lemma capture_files_succeeds:
  "\<forall>j site. \<not> alloc_fails e j site \<Longrightarrow> entries_have_writers fs \<Longrightarrow>
   \<forall>f\<in>set fs. fdtab w (pipefd f) \<noteq> None \<Longrightarrow>
   \<exists>elems w'. capture_files e i fs acc w = Some (Inr elems, w')"
proof (induction fs arbitrary: i acc w)
  case Nil
  then show ?case by simp
next
  case (Cons f fs)
  from Cons.prems obtain wr b where wr: "wfile f = Some wr" and b: "fdtab w (pipefd f) = Some b"
    by (auto simp: entries_have_writers_def)
  let ?w1 = "w\<lparr>fdtab := (fdtab w)(pipefd f \<mapsto> True)\<rparr>"
  have inh: "virSetInherit (pipefd f) True w = Some ?w1"
    using b by (simp add: virSetInherit_def)
  have "\<forall>g\<in>set fs. fdtab ?w1 (pipefd g) \<noteq> None"
    using Cons.prems(3) by auto
  moreover have "entries_have_writers fs"
    using Cons.prems(2) by (simp add: entries_have_writers_def)
  ultimately obtain elems w' where
    "capture_files e (Suc i) fs
       (acc @ [JObject [(''pipefd'', JNumber (pipefd f)),
                        (''path'', JString (virRotatingFileWriterGetPath wr))]]) ?w1
      = Some (Inr elems, w')"
    using Cons.IH [OF Cons.prems(1)] by blast
  with Cons.prems(1) wr inh show ?case by simp
qed

lemma capture_files_append:
  "capture_files e i (xs @ ys) acc w =
     (case capture_files e i xs acc w of
        Some (Inr a, w1) \<Rightarrow> capture_files e (i + length xs) ys a w1
      | r \<Rightarrow> r)"
  by (induction xs arbitrary: i acc w) (auto split: option.splits sum.splits)

lemma capture_one_failure_keeps_world:
  "capture_files e i [f] acc w = Some (Inl err, w') \<Longrightarrow> w' = w"
  by (auto split: if_splits option.splits)

text \<open>
  Claim C7. A capture that returns a document returns the object whose "files" array holds
  one \<open>{pipefd, path}\<close> pair per entry of the handler, in the order of the array, the
  path being that of the entry's writer and pipefd the entry's pipe descriptor; and in the
  world it leaves every one of those descriptors is inheritable across exec, while the
  other descriptors, the watches, the writers and the files are untouched.
\<close>

theorem capture_document:
  assumes "virLogHandlerPreExecRestart e h w = Some (Inr doc, w')"
  shows "(\<exists>wrs. map wfile (files h) = map Some wrs
            \<and> doc = JObject [(''files'', JArray (map2 document_pair (files h) wrs))])
     \<and> (\<forall>f\<in>set (files h). fdtab w' (pipefd f) = Some True)
     \<and> (\<forall>fd. fd \<notin> pipefd ` set (files h) \<longrightarrow> fdtab w' fd = fdtab w fd)
     \<and> watches w' = watches w \<and> writers w' = writers w \<and> disk w' = disk w"
proof -
  from assms obtain elems where
    c: "capture_files e 0 (files h) [] w = Some (Inr elems, w')" and d: "doc = JObject [(''files'', JArray elems)]"
    by (auto simp: virLogHandlerPreExecRestart_def split: if_splits option.splits sum.splits prod.splits)
  from capture_files_ok [OF c] d show ?thesis by simp
qed

theorem capture_document_witness:
  "virLogHandlerPreExecRestart example_env example_handler example_world =
     Some (Inr example_document,
           example_world\<lparr>fdtab := (fdtab example_world)(5 \<mapsto> True)\<rparr>)
   \<and> fdtab example_world 5 = Some False"
proof -
  let ?w = "example_world\<lparr>fdtab := (fdtab example_world)(5 \<mapsto> True)\<rparr>"
  have r: "virLogHandlerPreExecRestart example_env example_handler example_world =
             Some (Inr example_document, ?w)"
    by (simp add: virLogHandlerPreExecRestart_def example_defs op_defs)
  have "fdtab example_world 5 = Some False"
    by (simp add: example_defs)
  with capture_document [OF r] r show ?thesis by simp
qed

text \<open>A capture returns a document whenever no allocation fails, every entry has a writer
  and every pipe descriptor is open.\<close>

lemma capture_succeeds:
  assumes "\<forall>j site. \<not> alloc_fails e j site" and "entries_have_writers (files h)"
      and "\<forall>f\<in>set (files h). fdtab w (pipefd f) \<noteq> None"
  shows "\<exists>doc w'. virLogHandlerPreExecRestart e h w = Some (Inr doc, w')"
proof -
  from capture_files_succeeds [OF assms, of 0 "[]"] obtain elems w' where
    "capture_files e 0 (files h) [] w = Some (Inr elems, w')" by blast
  with assms(1) show ?thesis by (simp add: virLogHandlerPreExecRestart_def)
qed

text \<open>
  Claim C10. When the capture fails at an entry (one of its JSON steps, or making its
  descriptor inheritable), after the entries before it have been captured, the call returns
  the error in the world those entries have left: their descriptors are inheritable, and
  nothing sets close-on-exec again.
\<close>

theorem capture_failure_not_undone:
  assumes "\<not> alloc_fails e 0 JsonRoot" and "\<not> alloc_fails e 0 JsonNewArray"
      and "\<not> alloc_fails e 0 JsonObjectAppend"
      and "files h = pre @ f # post"
      and "capture_files e 0 pre [] w = Some (Inr elems, w1)"
      and "capture_files e (length pre) [f] elems w1 = Some (Inl err, w2)"
  shows "virLogHandlerPreExecRestart e h w = Some (Inl err, w1)
     \<and> (\<forall>g\<in>set pre. fdtab w1 (pipefd g) = Some True)"
proof -
  have w2: "w2 = w1" using capture_one_failure_keeps_world [OF assms(6)] .
  have "capture_files e (length pre) (f # post) elems w1 = Some (Inl err, w1)"
    using assms(6) w2 by (auto split: if_splits option.splits)
  then have "capture_files e 0 (files h) [] w = Some (Inl err, w1)"
    using assms(4,5) by (simp add: capture_files_append)
  then have "virLogHandlerPreExecRestart e h w = Some (Inl err, w1)"
    using assms(1-3) by (simp add: virLogHandlerPreExecRestart_def)
  moreover have "\<forall>g\<in>set pre. fdtab w1 (pipefd g) = Some True"
    using capture_files_ok [OF assms(5)] by blast
  ultimately show ?thesis by blast
qed

theorem capture_failure_not_undone_witness:
  "virLogHandlerPreExecRestart example_env example_handler_two example_world =
     Some (Inl InheritFailed,
           example_world\<lparr>fdtab := (fdtab example_world)(5 \<mapsto> True)\<rparr>)
   \<and> fdtab example_world 5 = Some False
   \<and> fdtab (example_world\<lparr>fdtab := (fdtab example_world)(5 \<mapsto> True)\<rparr>) 5 = Some True"
proof -
  let ?w = "example_world\<lparr>fdtab := (fdtab example_world)(5 \<mapsto> True)\<rparr>"
  have a: "\<not> alloc_fails example_env 0 JsonRoot" "\<not> alloc_fails example_env 0 JsonNewArray"
    "\<not> alloc_fails example_env 0 JsonObjectAppend"
    by (simp_all add: example_env_def)
  have f: "files example_handler_two = [example_entry] @ example_entry_closed # []"
    by (simp add: example_handler_two_def)
  have p: "capture_files example_env 0 [example_entry] [] example_world =
             Some (Inr [document_pair example_entry example_writer], ?w)"
    by (simp add: example_defs op_defs document_pair_def)
  have q: "capture_files example_env (length [example_entry]) [example_entry_closed]
             [document_pair example_entry example_writer] ?w = Some (Inl InheritFailed, ?w)"
    by (simp add: example_defs op_defs document_pair_def)
  have "fdtab example_world 5 = Some False"
    by (simp add: example_defs)
  with capture_failure_not_undone [OF a f p q] show ?thesis by simp
qed

section \<open>Reading a log file: the returned buffer\<close>

lemma consume_bound:
  "virRotatingFileReaderConsume e r n = Some bytes \<Longrightarrow> length bytes \<le> n"
  by (auto simp: virRotatingFileReaderConsume_def split: if_splits list.splits)

lemma unat_succ_size:
  fixes maxlen :: "64 word"
  assumes "maxlen \<noteq> - 1"
  shows "unat (maxlen + 1) = unat maxlen + 1"
proof -
  have "1 + maxlen \<noteq> 0"
    using assms by (metis add.commute add_eq_0_iff)
  from unatSuc [OF this] show ?thesis by (simp add: add.commute)
qed

lemma replicate_three: "replicate 3 x = [x, x, x]"
  by (simp add: numeral_3_eq_3)

lemma nul_in_zeroes: "(replicate m z)[i := z] = replicate m z"
proof (rule nth_equalityI)
  show "length ((replicate m z)[i := z]) = length (replicate m z)" by simp
next
  fix k assume "k < length ((replicate m z)[i := z])"
  then have "k < m" by simp
  then show "(replicate m z)[i := z] ! k = replicate m z ! k"
    by (cases "k = i") simp_all
qed

lemma store_in_block:
  assumes "length bytes \<le> n"
  shows "(take (n + 1) bytes @ drop (length bytes) (replicate (n + 1) z))[length bytes := z] =
           bytes @ replicate (n + 1 - length bytes) z"
proof -
  have "take (n + 1) bytes = bytes" using assms by simp
  moreover have "drop (length bytes) (replicate (n + 1) z) = replicate (n + 1 - length bytes) z"
    by (rule drop_replicate)
  ultimately show ?thesis
    by (simp add: list_update_append nul_in_zeroes del: replicate_Suc)
qed

text \<open>For every limit but the largest size\_t, a call in which every step succeeds returns
  the block of \<open>maxlen + 1\<close> bytes that starts with the bytes consumed, at most \<open>maxlen\<close>,
  and is NUL from the byte right after them to its end.\<close>

lemma read_log_file_nul_terminated:
  assumes "maxlen \<noteq> - 1"
      and "virLogHandlerGetLogFilePathForDomain e h driver uuid name = Some path"
      and "virRotatingFileReaderNew e path DEFAULT_MAX_BACKUP w = Some r"
      and "virRotatingFileReaderSeek r inode offset = Some r1"
      and "\<not> alloc_fails e 0 AllocData"
      and "virRotatingFileReaderConsume e r1 (unat maxlen) = Some bytes"
  shows "virLogHandlerDomainReadLogFile e h driver uuid name inode offset maxlen w =
           Inr (bytes @ replicate (unat maxlen + 1 - length bytes) 0)
         \<and> length bytes \<le> unat maxlen"
proof -
  have b: "length bytes \<le> unat maxlen" using consume_bound [OF assms(6)] .
  have len: "unat (maxlen + 1) = unat maxlen + 1" using unat_succ_size [OF assms(1)] .
  note st = store_in_block [OF b, of "0 :: byte"]
  have "virLogHandlerDomainReadLogFile e h driver uuid name inode offset maxlen w =
          Inr ((take (unat maxlen + 1) bytes
                  @ drop (length bytes) (replicate (unat maxlen + 1) 0))[length bytes := 0])"
    using assms(2-6) len by (simp add: virLogHandlerDomainReadLogFile_def Let_def del: replicate_Suc)
  with st b show ?thesis by simp
qed

lemma read_log_file_size_max:
  assumes "virLogHandlerDomainReadLogFile e h driver uuid name inode offset (- 1) w = Inr data"
  shows "data = []"
  using assms
  by (auto simp: virLogHandlerDomainReadLogFile_def Let_def split: option.splits if_splits)

text \<open>
  Claim C9 fails on the code for the limit \<open>maxlen = SIZE_MAX\<close>. The size
  \<open>maxlen + 1\<close> of the buffer wraps to 0, the NUL is stored at \<open>data[got]\<close> outside the
  block of no bytes, and the call succeeds: the buffer returned holds no byte, so no NUL
  after the bytes consumed. In the example no byte is left to consume from offset 3; with
  the limit 2 the same call returns three NUL bytes.
\<close>

theorem read_log_file_size_max_no_nul:
  "virLogHandlerDomainReadLogFile example_env example_handler ''qemu'' [] ''vm1'' 10 3 (- 1)
     example_world = Inr []
   \<and> virLogHandlerDomainReadLogFile example_env example_handler ''qemu'' [] ''vm1'' 10 3 2
     example_world = Inr [0, 0, 0]"
  by (simp add: virLogHandlerDomainReadLogFile_def virRotatingFileReaderNew_def
      virRotatingFileReaderSeek_def virRotatingFileReaderConsume_def example_defs op_defs
      replicate_three)

lemma read_log_file_example:
  "virLogHandlerDomainReadLogFile example_env example_handler ''qemu'' [] ''vm1'' 10 0 2
     example_world = Inr [111, 108, 0]"
  by (simp add: virLogHandlerDomainReadLogFile_def virRotatingFileReaderNew_def
      virRotatingFileReaderSeek_def virRotatingFileReaderConsume_def example_defs op_defs
      replicate_three)

section \<open>The handler's entries always have writers\<close>

text \<open>The operations return, and keep every entry of the array with a writer, so the
  functions that read an entry's writer never meet NULL on a handler built by them.\<close>

lemma new_has_writers:
  "virLogHandlerNew e priv = Some h \<Longrightarrow> entries_have_writers (files h)"
  by (auto simp: virLogHandlerNew_def entries_have_writers_def split: if_splits)

lemma open_returns:
  assumes "entries_have_writers (files h)"
  shows "\<exists>r. virLogHandlerDomainOpenLogFile e h driver uuid name w = Some r"
proof (cases "virLogHandlerGetLogFilePathForDomain e h driver uuid name")
  case None
  then show ?thesis by (simp add: virLogHandlerDomainOpenLogFile_def)
next
  case (Some path)
  from path_in_use_total [OF assms, of path] obtain b where
    "path_in_use (files h) path = Some b" by blast
  with Some show ?thesis
    by (auto simp: virLogHandlerDomainOpenLogFile_def Let_def
        split: option.splits bool.splits prod.splits)
qed

lemma open_keeps_writers:
  "virLogHandlerDomainOpenLogFile e h driver uuid name w = Some (r, h', w') \<Longrightarrow>
   entries_have_writers (files h) \<Longrightarrow> entries_have_writers (files h')"
  by (auto simp: virLogHandlerDomainOpenLogFile_def Let_def entries_have_writers_def
      split: option.splits bool.splits prod.splits if_splits)

lemma close_keeps_writers:
  "entries_have_writers (files h) \<Longrightarrow>
   entries_have_writers (files (fst (virLogHandlerLogFileClose h lf w)))"
  by (auto simp: virLogHandlerLogFileClose_def entries_have_writers_def list_all_iff
      dest: notin_set_remove1)

lemma callback_keeps_writers:
  "virLogHandlerDomainLogFileEvent e wt fd ev h w = Some (h', w') \<Longrightarrow>
   entries_have_writers (files h) \<Longrightarrow> entries_have_writers (files h')"
  using close_keeps_writers [of h]
  by (auto simp: virLogHandlerDomainLogFileEvent_def
      split: option.splits if_splits read_result.splits prod.splits)
     (metis fst_conv)+

lemma callback_returns:
  assumes "entries_have_writers (files h)" and "reread (reads e) \<noteq> None"
  shows "\<exists>r. virLogHandlerDomainLogFileEvent e wt fd ev h w = Some r"
proof (cases "virLogHandlerGetLogFileFromWatch h wt")
  case None
  then show ?thesis by (simp add: virLogHandlerDomainLogFileEvent_def)
next
  case (Some lf)
  with found_in_files [OF Some] assms(1) obtain wr where "wfile lf = Some wr"
    by (auto simp: entries_have_writers_def list_all_iff)
  with Some assms(2) show ?thesis
    by (auto simp: virLogHandlerDomainLogFileEvent_def
        split: option.splits read_result.splits prod.splits)
qed

lemma restart_entry_has_writer:
  "virLogHandlerLogFilePostExecRestart e i obj w = (Inr f, w') \<Longrightarrow> wfile f \<noteq> None"
  by (auto simp: virLogHandlerLogFilePostExecRestart_def Let_def
      split: option.splits if_splits prod.splits)

lemma restore_files_have_writers:
  "restore_files e i cs h w = (Inr h', w') \<Longrightarrow> entries_have_writers (files h) \<Longrightarrow>
   entries_have_writers (files h')"
proof (induction cs arbitrary: i h w)
  case Nil
  then show ?case by simp
next
  case (Cons c cs)
  from Cons.prems(1) obtain f w1 where
    f: "virLogHandlerLogFilePostExecRestart e i c w = (Inr f, w1)"
    by (auto split: prod.splits sum.splits)
  obtain wt w2 where a: "virEventAddHandle e (pipefd f) w1 = (wt, w2)"
    by (cases "virEventAddHandle e (pipefd f) w1")
  from Cons.prems(1) f a have
    r: "restore_files e (Suc i) cs (h\<lparr>files := files h @ [f\<lparr>watch := wt\<rparr>]\<rparr>) w2 = (Inr h', w')"
    by (auto split: if_splits)
  have "entries_have_writers (files (h\<lparr>files := files h @ [f\<lparr>watch := wt\<rparr>]\<rparr>))"
    using Cons.prems(2) restart_entry_has_writer [OF f]
    by (simp add: entries_have_writers_def)
  from Cons.IH [OF r this] show ?case .
qed

lemma restore_has_writers:
  assumes "virLogHandlerNewPostExecRestart e doc priv w = (Inr h, w')"
  shows "entries_have_writers (files h)"
proof -
  from assms obtain cs where
    "restore_files e 0 cs \<lparr>privileged = priv, files = []\<rparr> w = (Inr h, w')"
    by (auto simp: virLogHandlerNewPostExecRestart_def virLogHandlerNew_def
        split: option.splits if_splits virJSONValue.splits)
  from restore_files_have_writers [OF this] show ?thesis
    by (simp add: entries_have_writers_def)
qed

end
